theory Spec2Isabelle
  imports Main
begin

section \<open>UnprimedBrownfieldQualifier\<close>

text \<open>
  \<^verbatim>\<open>SolutionContextView\<close> (interface in the source): the architecture may be
  \<^verbatim>\<open>null\<close>, the four other fields are arrays. The element types are views that the
  qualifier never inspects, so they stay type parameters.
\<close>

record ('a, 'c, 'd, 'i, 'g) SolutionContextView =
  architecture :: "'a option"
  components :: "'c list"
  decisions :: "'d list"
  invariants :: "'i list"
  guidelines :: "'g list"

text \<open>
  \<^verbatim>\<open>isUnprimed\<close> awaits \<^verbatim>\<open>solutionContextReader.getSolutionContext()\<close>; the reader is a
  port, so its outcome is the argument: \<open>Inl e\<close> when the reader rejects (the rejection
  propagates through the \<^verbatim>\<open>await\<close>), \<open>Inr context\<close> when it returns a view.
\<close>

definition isUnprimed ::
  "'e + ('a, 'c, 'd, 'i, 'g) SolutionContextView \<Rightarrow> 'e + bool" where
  "isUnprimed getSolutionContext =
     (case getSolutionContext of
        Inl e \<Rightarrow> Inl e
      | Inr context \<Rightarrow>
          (let hasArchitecture = (architecture context \<noteq> None);
               hasComponents = (length (components context) > 0);
               hasDecisions = (length (decisions context) > 0);
               hasInvariants = (length (invariants context) > 0);
               hasGuidelines = (length (guidelines context) > 0);
               isPrimed = (hasArchitecture \<or> hasComponents \<or> hasDecisions
                           \<or> hasInvariants \<or> hasGuidelines)
           in Inr (\<not> isPrimed)))"

section \<open>AddGoalCommandHandler\<close>

subsection \<open>The command and the embedded context\<close>

text \<open>
  \<^verbatim>\<open>AddGoalCommand\<close> as the handler reads it. The seven embedded-context fields other
  than \<^verbatim>\<open>nextGoalId\<close> are arrays or objects (type \<open>'o\<close>): when present they are
  truthy, whatever they contain. \<^verbatim>\<open>nextGoalId\<close> and \<^verbatim>\<open>previousGoalId\<close> are optional
  strings (\<^verbatim>\<open>previousGoalId\<close> is passed to a parameter of type \<^verbatim>\<open>string\<close>); an optional
  field that is absent (\<^verbatim>\<open>undefined\<close>) is \<open>None\<close>.
\<close>

record 'o AddGoalCommand =
  objective :: string
  successCriteria :: "string list"
  scopeIn :: "string list option"
  scopeOut :: "string list option"
  boundaries :: "string list option"
  relevantInvariants :: "'o option"
  relevantGuidelines :: "'o option"
  relevantDependencies :: "'o option"
  relevantComponents :: "'o option"
  architecture_cmd :: "'o option"
  filesToBeCreated :: "'o option"
  filesToBeChanged :: "'o option"
  nextGoalId :: "string option"
  previousGoalId :: "string option"

text \<open>The object literal built at lines 47-56 of the handler.\<close>

record 'o embeddedContext =
  ctx_relevantInvariants :: "'o option"
  ctx_relevantGuidelines :: "'o option"
  ctx_relevantDependencies :: "'o option"
  ctx_relevantComponents :: "'o option"
  ctx_architecture :: "'o option"
  ctx_filesToBeCreated :: "'o option"
  ctx_filesToBeChanged :: "'o option"
  ctx_nextGoalId :: "string option"

text \<open>
  JavaScript truthiness of the two kinds of optional value: an object or array is truthy
  whenever it is there; a string is truthy when it is there and not the empty string.
\<close>

definition truthy_obj :: "'o option \<Rightarrow> bool" where
  "truthy_obj v = (v \<noteq> None)"

definition truthy_str :: "string option \<Rightarrow> bool" where
  "truthy_str v = (case v of None \<Rightarrow> False | Some s \<Rightarrow> s \<noteq> [])"

definition hasEmbeddedContext :: "'o AddGoalCommand \<Rightarrow> bool" where
  "hasEmbeddedContext command =
     (truthy_obj (relevantInvariants command) \<or>
      truthy_obj (relevantGuidelines command) \<or>
      truthy_obj (relevantDependencies command) \<or>
      truthy_obj (relevantComponents command) \<or>
      truthy_obj (architecture_cmd command) \<or>
      truthy_obj (filesToBeCreated command) \<or>
      truthy_obj (filesToBeChanged command) \<or>
      truthy_str (nextGoalId command))"

definition buildEmbeddedContext :: "'o AddGoalCommand \<Rightarrow> 'o embeddedContext option" where
  "buildEmbeddedContext command =
     (if hasEmbeddedContext command then
        Some \<lparr> ctx_relevantInvariants = relevantInvariants command,
               ctx_relevantGuidelines = relevantGuidelines command,
               ctx_relevantDependencies = relevantDependencies command,
               ctx_relevantComponents = relevantComponents command,
               ctx_architecture = architecture_cmd command,
               ctx_filesToBeCreated = filesToBeCreated command,
               ctx_filesToBeChanged = filesToBeChanged command,
               ctx_nextGoalId = nextGoalId command \<rparr>
      else None)"

text \<open>The object literal \<^verbatim>\<open>{ nextGoalId: newGoalId }\<close> of line 112.\<close>

definition nextGoalIdOnly :: "string \<Rightarrow> 'o embeddedContext" where
  "nextGoalIdOnly newGoalId =
     \<lparr> ctx_relevantInvariants = None, ctx_relevantGuidelines = None,
       ctx_relevantDependencies = None, ctx_relevantComponents = None,
       ctx_architecture = None, ctx_filesToBeCreated = None,
       ctx_filesToBeChanged = None, ctx_nextGoalId = Some newGoalId \<rparr>"

subsection \<open>Collaborators\<close>

text \<open>
  The \<^verbatim>\<open>Goal\<close> aggregate (\<^verbatim>\<open>domain/work/goals/Goal.js\<close>) is imported by the handler
  and is a parameter here: any of its operations may throw (\<open>Inl x\<close>). \<open>'g\<close> is the
  aggregate, \<open>'ev\<close> the event, \<open>'x\<close> whatever a collaborator throws.
\<close>

record ('o, 'g, 'ev, 'x) Goal_ops =
  Goal_create :: "string \<Rightarrow> 'x + 'g"
  Goal_add :: "'g \<Rightarrow> string \<Rightarrow> string list \<Rightarrow> string list option \<Rightarrow> string list option
               \<Rightarrow> string list option \<Rightarrow> 'o embeddedContext option \<Rightarrow> 'x + 'ev"
  Goal_rehydrate :: "string \<Rightarrow> 'ev list \<Rightarrow> 'x + 'g"
  Goal_update :: "'g \<Rightarrow> string option \<Rightarrow> string list option \<Rightarrow> string list option
               \<Rightarrow> string list option \<Rightarrow> string list option
               \<Rightarrow> 'o embeddedContext option \<Rightarrow> 'x + 'ev"

text \<open>
  The five constructor parameters are ports. Each call takes the world \<open>'w\<close> (the store,
  the bus and its subscribers, the read model) and gives back the world it leaves and
  either a result or what it threw. The three chaining collaborators are optional
  constructor parameters. \<open>'s\<close> is the summary that \<^verbatim>\<open>findById\<close> returns; \<open>None\<close> is
  \<^verbatim>\<open>null\<close>.
\<close>

type_synonym ('w, 'x, 'a) port = "'w \<Rightarrow> ('x + 'a) \<times> 'w"

record ('w, 'ev, 's, 'x) handler_deps =
  eventWriter :: "'ev \<Rightarrow> ('w, 'x, unit) port"
  eventBus :: "'ev \<Rightarrow> ('w, 'x, unit) port"
  updateEventWriter :: "('ev \<Rightarrow> ('w, 'x, unit) port) option"
  updateEventReader :: "(string \<Rightarrow> ('w, 'x, 'ev list) port) option"
  goalReader :: "(string \<Rightarrow> ('w, 'x, 's option) port) option"

text \<open>
  The calls the handler makes on its ports, in a log kept beside the world: which call,
  and whether it returned or threw.
\<close>

datatype 'ev call =
    EventWriterAppend 'ev
  | EventBusPublish 'ev
  | GoalReaderFindById string
  | UpdateEventReaderReadStream string
  | UpdateEventWriterAppend 'ev

datatype outcome = Returned | Threw

type_synonym 'ev log = "('ev call \<times> outcome) list"

definition outcome_of :: "'x + 'a \<Rightarrow> outcome" where
  "outcome_of r = (case r of Inl _ \<Rightarrow> Threw | Inr _ \<Rightarrow> Returned)"

definition await :: "'ev call \<Rightarrow> ('w, 'x, 'a) port \<Rightarrow> 'w \<times> 'ev log \<Rightarrow> ('x + 'a) \<times> 'w \<times> 'ev log" where
  "await c p s =
     (case p (fst s) of (r, w') \<Rightarrow> (r, (w', snd s @ [(c, outcome_of r)])))"

text \<open>
  What \<^verbatim>\<open>execute\<close> can reject with: the two errors the handler constructs itself
  (\<^verbatim>\<open>"Goal chaining dependencies not configured"\<close>, and the \<^verbatim>\<open>NOT_FOUND\<close> message
  formatted with the goal id), and anything a collaborator threw.
\<close>

datatype 'x error =
    ChainingNotConfigured
  | GoalNotFound string
  | Raised 'x

subsection \<open>The handler\<close>

text \<open>
  \<^verbatim>\<open>updatePreviousGoalNextGoalId\<close> (lines 86-120). Each \<^verbatim>\<open>await\<close> that rejects and each
  \<^verbatim>\<open>throw\<close> ends the method with that error, in the state reached so far. The parameter
  \<^verbatim>\<open>previousGoalId\<close> is \<open>prevGoalId\<close> here (the command's field has the name).
\<close>

definition updatePreviousGoalNextGoalId ::
  "('w, 'ev, 's, 'x) handler_deps \<Rightarrow> ('o, 'g, 'ev, 'x) Goal_ops \<Rightarrow> string \<Rightarrow> string
   \<Rightarrow> 'w \<times> 'ev log \<Rightarrow> ('x error + unit) \<times> 'w \<times> 'ev log" where
  "updatePreviousGoalNextGoalId deps ops prevGoalId newGoalId s =
     (case (updateEventWriter deps, updateEventReader deps, goalReader deps) of
        (Some uw, Some ur, Some gr) \<Rightarrow>
          (case await (GoalReaderFindById prevGoalId) (gr prevGoalId) s of
             (Inl x, s1) \<Rightarrow> (Inl (Raised x), s1)
           | (Inr None, s1) \<Rightarrow> (Inl (GoalNotFound prevGoalId), s1)
           | (Inr (Some existingGoal), s1) \<Rightarrow>
               (case await (UpdateEventReaderReadStream prevGoalId) (ur prevGoalId) s1 of
                  (Inl x, s2) \<Rightarrow> (Inl (Raised x), s2)
                | (Inr history, s2) \<Rightarrow>
                    (case Goal_rehydrate ops prevGoalId history of
                       Inl x \<Rightarrow> (Inl (Raised x), s2)
                     | Inr previousGoal \<Rightarrow>
                         (case Goal_update ops previousGoal None None None None None
                                 (Some (nextGoalIdOnly newGoalId)) of
                            Inl x \<Rightarrow> (Inl (Raised x), s2)
                          | Inr updateEvent \<Rightarrow>
                              (case await (UpdateEventWriterAppend updateEvent) (uw updateEvent) s2 of
                                 (Inl x, s3) \<Rightarrow> (Inl (Raised x), s3)
                               | (Inr u, s3) \<Rightarrow>
                                   (case await (EventBusPublish updateEvent)
                                           (eventBus deps updateEvent) s3 of
                                      (Inl x, s4) \<Rightarrow> (Inl (Raised x), s4)
                                    | (Inr u', s4) \<Rightarrow> (Inr (), s4)))))))
      | _ \<Rightarrow> (Inl ChainingNotConfigured, s))"

text \<open>The template string of line 30; \<open>uuid\<close> is what \<^verbatim>\<open>randomUUID()\<close> returned.\<close>

definition goalId_of :: "string \<Rightarrow> string" where
  "goalId_of uuid = ''goal_'' @ uuid"

text \<open>
  \<^verbatim>\<open>execute\<close> (lines 28-80). The test \<^verbatim>\<open>if (command.previousGoalId)\<close> is a truthiness
  test on an optional string.
\<close>

definition execute ::
  "('w, 'ev, 's, 'x) handler_deps \<Rightarrow> ('o, 'g, 'ev, 'x) Goal_ops \<Rightarrow> string
   \<Rightarrow> 'o AddGoalCommand \<Rightarrow> 'w \<times> 'ev log \<Rightarrow> ('x error + string) \<times> 'w \<times> 'ev log" where
  "execute deps ops uuid command s =
     (let goalId = goalId_of uuid in
      case Goal_create ops goalId of
        Inl x \<Rightarrow> (Inl (Raised x), s)
      | Inr goal \<Rightarrow>
          (let embeddedContext = buildEmbeddedContext command in
           case Goal_add ops goal (objective command) (successCriteria command)
                  (scopeIn command) (scopeOut command) (boundaries command)
                  embeddedContext of
             Inl x \<Rightarrow> (Inl (Raised x), s)
           | Inr event \<Rightarrow>
               (case await (EventWriterAppend event) (eventWriter deps event) s of
                  (Inl x, s1) \<Rightarrow> (Inl (Raised x), s1)
                | (Inr u, s1) \<Rightarrow>
                    (case await (EventBusPublish event) (eventBus deps event) s1 of
                       (Inl x, s2) \<Rightarrow> (Inl (Raised x), s2)
                     | (Inr u', s2) \<Rightarrow>
                         (if truthy_str (previousGoalId command) then
                            (case updatePreviousGoalNextGoalId deps ops
                                    (the (previousGoalId command)) goalId s2 of
                               (Inl e, s3) \<Rightarrow> (Inl e, s3)
                             | (Inr u'', s3) \<Rightarrow> (Inr goalId, s3))
                          else (Inr goalId, s2))))))"

subsection \<open>Reading the log\<close>

text \<open>
  \<open>published_committed done l\<close>: walking the log \<open>l\<close> from the left with \<open>done\<close> the
  events whose append has returned so far, every publish is of an event in \<open>done\<close>.
\<close>

fun published_committed :: "'ev list \<Rightarrow> 'ev log \<Rightarrow> bool" where
  "published_committed done [] = True"
| "published_committed done ((EventBusPublish ev, r) # l) =
     (ev \<in> set done \<and> published_committed done l)"
| "published_committed done ((EventWriterAppend ev, Returned) # l) =
     published_committed (ev # done) l"
| "published_committed done ((UpdateEventWriterAppend ev, Returned) # l) =
     published_committed (ev # done) l"
| "published_committed done (c # l) = published_committed done l"

text \<open>\<open>stops_at_throw l\<close>: a call that threw is the last call of the log.\<close>

fun stops_at_throw :: "'ev log \<Rightarrow> bool" where
  "stops_at_throw [] = True"
| "stops_at_throw ((c, r) # l) = ((r = Returned \<or> l = []) \<and> stops_at_throw l)"

text \<open>The calls of a run of \<^verbatim>\<open>execute\<close> that starts with an empty log.\<close>

definition calls_of :: "('e + 'a) \<times> 'w \<times> 'ev log \<Rightarrow> 'ev log" where
  "calls_of res = snd (snd res)"

definition result_of :: "('e + 'a) \<times> 'w \<times> 'ev log \<Rightarrow> 'e + 'a" where
  "result_of res = fst res"

text \<open>The events whose append through the given writer returned.\<close>

definition appended_by_eventWriter :: "'ev log \<Rightarrow> 'ev list" where
  "appended_by_eventWriter l =
     concat (map (\<lambda>(c, r). case c of EventWriterAppend ev \<Rightarrow> (if r = Returned then [ev] else [])
                                   | _ \<Rightarrow> []) l)"

definition appended_by_updateEventWriter :: "'ev log \<Rightarrow> 'ev list" where
  "appended_by_updateEventWriter l =
     concat (map (\<lambda>(c, r). case c of UpdateEventWriterAppend ev \<Rightarrow> (if r = Returned then [ev] else [])
                                   | _ \<Rightarrow> []) l)"

text \<open>The calls that only \<^verbatim>\<open>updatePreviousGoalNextGoalId\<close> makes.\<close>

fun is_chaining_call :: "'ev call \<Rightarrow> bool" where
  "is_chaining_call (GoalReaderFindById i) = True"
| "is_chaining_call (UpdateEventReaderReadStream i) = True"
| "is_chaining_call (UpdateEventWriterAppend ev) = True"
| "is_chaining_call c = False"

subsection \<open>A reference environment\<close>

text \<open>
  Modelled from the spec: the \<^verbatim>\<open>Goal\<close> aggregate, the event store, the event bus and the
  finder are not under \<^verbatim>\<open>src/\<close>. This instance follows sections 3, 4.1-4.3 and 6 of the
  specification and is used to run the handler on concrete inputs: an event carries its
  stream id; \<^verbatim>\<open>add\<close> rejects an empty objective with a validation error and returns one
  event; \<^verbatim>\<open>update\<close> returns one event whose payload holds the fields given;
  \<^verbatim>\<open>rehydrate\<close> folds the history from the left; \<^verbatim>\<open>append\<close> adds the event at the end of
  its stream; \<^verbatim>\<open>readStream\<close> of an unknown stream is empty; \<^verbatim>\<open>findById\<close> returns
  \<^verbatim>\<open>null\<close> for a goal that was never published. A store that is down rejects every
  append.
\<close>

datatype goal_event =
    GoalAddedEvent string string "string option"
  | GoalUpdatedEvent string "string option"

datatype fault = ValidationError string | CorruptHistoryError | StoreUnavailable

record goal_state =
  goal_id :: string
  goal_objective :: "string option"
  goal_nextGoalId :: "string option"

fun streamId :: "goal_event \<Rightarrow> string" where
  "streamId (GoalAddedEvent i obj nxt) = i"
| "streamId (GoalUpdatedEvent i nxt) = i"

fun payload_nextGoalId :: "goal_event \<Rightarrow> string option" where
  "payload_nextGoalId (GoalAddedEvent i obj nxt) = nxt"
| "payload_nextGoalId (GoalUpdatedEvent i nxt) = nxt"

fun apply_event :: "goal_state \<Rightarrow> goal_event \<Rightarrow> goal_state" where
  "apply_event g (GoalAddedEvent i obj nxt) =
     g\<lparr>goal_objective := Some obj, goal_nextGoalId := nxt\<rparr>"
| "apply_event g (GoalUpdatedEvent i nxt) =
     (case nxt of None \<Rightarrow> g | Some n \<Rightarrow> g\<lparr>goal_nextGoalId := Some n\<rparr>)"

definition ref_Goal :: "('o, goal_state, goal_event, fault) Goal_ops" where
  "ref_Goal =
     \<lparr> Goal_create = (\<lambda>i. Inr \<lparr>goal_id = i, goal_objective = None, goal_nextGoalId = None\<rparr>),
       Goal_add = (\<lambda>g obj sc si so b ctx.
          if obj = [] then Inl (ValidationError ''objective'')
          else Inr (GoalAddedEvent (goal_id g) obj
                      (case ctx of None \<Rightarrow> None | Some c \<Rightarrow> ctx_nextGoalId c))),
       Goal_rehydrate = (\<lambda>i history.
          if list_all (\<lambda>ev. streamId ev = i) history
          then Inr (foldl apply_event
                      \<lparr>goal_id = i, goal_objective = None, goal_nextGoalId = None\<rparr> history)
          else Inl CorruptHistoryError),
       Goal_update = (\<lambda>g obj sc si so b ctx.
          Inr (GoalUpdatedEvent (goal_id g)
                 (case ctx of None \<Rightarrow> None | Some c \<Rightarrow> ctx_nextGoalId c))) \<rparr>"

record ref_world =
  streams :: "string \<Rightarrow> goal_event list"
  published :: "goal_event list"
  store_down :: bool

definition ref_append :: "goal_event \<Rightarrow> (ref_world, fault, unit) port" where
  "ref_append ev w =
     (if store_down w then (Inl StoreUnavailable, w)
      else (Inr (), w\<lparr>streams := (streams w)(streamId ev := streams w (streamId ev) @ [ev])\<rparr>))"

definition ref_publish :: "goal_event \<Rightarrow> (ref_world, fault, unit) port" where
  "ref_publish ev w = (Inr (), w\<lparr>published := published w @ [ev]\<rparr>)"

definition ref_readStream :: "string \<Rightarrow> (ref_world, fault, goal_event list) port" where
  "ref_readStream i w = (Inr (streams w i), w)"

definition ref_findById :: "string \<Rightarrow> (ref_world, fault, string option) port" where
  "ref_findById i w =
     (Inr (if list_ex (\<lambda>ev. streamId ev = i) (published w) then Some i else None), w)"

definition ref_deps :: "(ref_world, goal_event, string, fault) handler_deps" where
  "ref_deps =
     \<lparr> eventWriter = ref_append, eventBus = ref_publish,
       updateEventWriter = Some ref_append, updateEventReader = Some ref_readStream,
       goalReader = Some ref_findById \<rparr>"

definition ref_deps_unwired :: "(ref_world, goal_event, string, fault) handler_deps" where
  "ref_deps_unwired =
     \<lparr> eventWriter = ref_append, eventBus = ref_publish,
       updateEventWriter = None, updateEventReader = None, goalReader = None \<rparr>"

text \<open>A command with the required fields only, and ways to set the two goal links.\<close>

definition plain_command :: "unit AddGoalCommand" where
  "plain_command =
     \<lparr> objective = ''ship'', successCriteria = [''done''], scopeIn = None, scopeOut = None,
       boundaries = None, relevantInvariants = None, relevantGuidelines = None,
       relevantDependencies = None, relevantComponents = None, architecture_cmd = None,
       filesToBeCreated = None, filesToBeChanged = None, nextGoalId = None,
       previousGoalId = None \<rparr>"

definition command_after :: "string \<Rightarrow> unit AddGoalCommand" where
  "command_after X = plain_command\<lparr>previousGoalId := Some X\<rparr>"

text \<open>The world after goal \<^verbatim>\<open>goal_a\<close> was added with \<open>plain_command\<close>.\<close>

definition world_a :: ref_world where
  "world_a =
     \<lparr> streams = (\<lambda>i. [])(''goal_a'' := [GoalAddedEvent ''goal_a'' ''ship'' None]),
       published = [GoalAddedEvent ''goal_a'' ''ship'' None], store_down = False \<rparr>"

section \<open>SafeGeminiSettingsMerger\<close>

subsection \<open>Settings\<close>

text \<open>The three interfaces of the source, field by field.\<close>

record GeminiHook =
  hook_type :: string
  command :: string

record GeminiSessionStartMatcher =
  matcher :: string
  hooks :: "GeminiHook list"

record GeminiHooks =
  SessionStart :: "GeminiSessionStartMatcher list option"

record GeminiSettings =
  settings_hooks :: "GeminiHooks option"

text \<open>
  A JavaScript \<^verbatim>\<open>Map\<close> keeps its keys in the order of their first insertion;
  \<^verbatim>\<open>set\<close> on a key that is there replaces the value where it stands.
\<close>

fun Map_set :: "('k \<times> 'v) list \<Rightarrow> 'k \<Rightarrow> 'v \<Rightarrow> ('k \<times> 'v) list" where
  "Map_set [] k v = [(k, v)]"
| "Map_set ((k', v') # m) k v = (if k' = k then (k, v) # m else (k', v') # Map_set m k v)"

definition Map_values :: "('k \<times> 'v) list \<Rightarrow> 'v list" where
  "Map_values m = map snd m"

text \<open>\<^verbatim>\<open>Array.prototype.findIndex\<close>: the first index whose element passes, or \<open>-1\<close>.\<close>

fun findIndex :: "('a \<Rightarrow> bool) \<Rightarrow> 'a list \<Rightarrow> int" where
  "findIndex P [] = -1"
| "findIndex P (x # xs) =
     (if P x then 0 else (let i = findIndex P xs in if i \<ge> 0 then i + 1 else -1))"

text \<open>The body of the \<^verbatim>\<open>for\<close> loop of \<^verbatim>\<open>mergeSessionStartHooks\<close> (lines 139-168).\<close>

definition mergeMatcher ::
  "GeminiSessionStartMatcher list \<Rightarrow> GeminiSessionStartMatcher \<Rightarrow> GeminiSessionStartMatcher list" where
  "mergeMatcher merged newMatcher =
     (let existingIndex = findIndex (\<lambda>m. matcher m = matcher newMatcher) merged in
      if existingIndex \<ge> 0 then
        (let existingMatcher = merged ! nat existingIndex;
             hookMap = foldl (\<lambda>hm hook. Map_set hm (command hook) hook) [] (hooks existingMatcher);
             hookMap' = foldl (\<lambda>hm hook. Map_set hm (command hook) hook) hookMap (hooks newMatcher)
         in merged[nat existingIndex := existingMatcher\<lparr>hooks := Map_values hookMap'\<rparr>])
      else merged @ [newMatcher])"

definition mergeSessionStartHooks ::
  "GeminiSessionStartMatcher list \<Rightarrow> GeminiSessionStartMatcher list \<Rightarrow> GeminiSessionStartMatcher list" where
  "mergeSessionStartHooks existing additions = foldl mergeMatcher existing additions"

text \<open>\<^verbatim>\<open>deepMerge\<close> (lines 105-128); \<^verbatim>\<open>{}\<close> is the hooks object with no \<^verbatim>\<open>SessionStart\<close>.\<close>

definition deepMerge :: "GeminiSettings \<Rightarrow> GeminiSettings \<Rightarrow> GeminiSettings" where
  "deepMerge existing newSettings =
     (case settings_hooks newSettings of
        None \<Rightarrow> existing
      | Some newHooks \<Rightarrow>
          (let resultHooks = (case settings_hooks existing of
                                None \<Rightarrow> \<lparr>SessionStart = None\<rparr> | Some h \<Rightarrow> h)
           in case SessionStart newHooks of
                None \<Rightarrow> existing\<lparr>settings_hooks := Some resultHooks\<rparr>
              | Some newSessionStart \<Rightarrow>
                  (let existingSessionStart =
                         (case settings_hooks existing of
                            None \<Rightarrow> []
                          | Some h \<Rightarrow> (case SessionStart h of None \<Rightarrow> [] | Some l \<Rightarrow> l))
                   in existing\<lparr>settings_hooks := Some (resultHooks
                        \<lparr>SessionStart := Some (mergeSessionStartHooks existingSessionStart
                                                  newSessionStart)\<rparr>)\<rparr>)))"

text \<open>
  \<^verbatim>\<open>validateSettings\<close> (lines 191-238) on a value of the interface type: the checks that
  a typed value can still fail are the matcher being falsy (the empty string, message
  \<^verbatim>\<open>SessionStart matcher must have a matcher property\<close>) and a hook whose \<^verbatim>\<open>type\<close> is
  not \<^verbatim>\<open>"command"\<close> (message \<^verbatim>\<open>Hook type must be 'command'\<close>). The first failing check,
  in the order of the two nested loops, decides.
\<close>

datatype validation_error = MatcherPropertyMissing | HookTypeNotCommand

fun validateHooks :: "GeminiHook list \<Rightarrow> validation_error option" where
  "validateHooks [] = None"
| "validateHooks (hook # rest) =
     (if hook_type hook \<noteq> ''command'' then Some HookTypeNotCommand
      else validateHooks rest)"

fun validateMatchers :: "GeminiSessionStartMatcher list \<Rightarrow> validation_error option" where
  "validateMatchers [] = None"
| "validateMatchers (m # rest) =
     (if matcher m = [] then Some MatcherPropertyMissing
      else (case validateHooks (hooks m) of
              Some err \<Rightarrow> Some err
            | None \<Rightarrow> validateMatchers rest))"

definition validateSettings :: "GeminiSettings \<Rightarrow> validation_error option" where
  "validateSettings settings =
     (case settings_hooks settings of
        None \<Rightarrow> None
      | Some h \<Rightarrow> (case SessionStart h of None \<Rightarrow> None | Some l \<Rightarrow> validateMatchers l))"

subsection \<open>The file system and the JSON codec\<close>

text \<open>
  What the module takes from its libraries is a parameter of the model. The five
  operations of \<^verbatim>\<open>fs-extra\<close> are ports on a world \<open>'w\<close>, each returning the world it
  leaves and either a result or what it threw (\<open>'x\<close>). \<^verbatim>\<open>path.join\<close> (given its
  segments as a list) and the string methods \<^verbatim>\<open>trim\<close> and \<^verbatim>\<open>trimEnd\<close> are functions of
  the runtime.
\<close>

record ('w, 'x) lib_ops =
  ensureDir :: "string \<Rightarrow> ('w, 'x, unit) port"
  pathExists :: "string \<Rightarrow> ('w, 'x, bool) port"
  readFile :: "string \<Rightarrow> ('w, 'x, string) port"
  writeFile :: "string \<Rightarrow> string \<Rightarrow> ('w, 'x, unit) port"
  copy :: "string \<Rightarrow> string \<Rightarrow> ('w, 'x, unit) port"
  path_join :: "string list \<Rightarrow> string"
  str_trim :: "string \<Rightarrow> string"
  str_trimEnd :: "string \<Rightarrow> string"

text \<open>
  \<^verbatim>\<open>JSON.parse\<close> gives a value of the interface type or fails with a message (a syntax
  error, or a shape that \<^verbatim>\<open>validateSettings\<close> rejects before it reaches the typed
  checks); \<^verbatim>\<open>JSON.stringify(merged, null, 2)\<close> is the other direction.
\<close>

record json_codec =
  JSON_parse :: "string \<Rightarrow> string + GeminiSettings"
  JSON_stringify :: "GeminiSettings \<Rightarrow> string"

datatype 'x init_error =
    FsError 'x
  | InvalidSettingsJson "string + validation_error"
  | SettingsInvalid validation_error

definition parseAndValidate :: "json_codec \<Rightarrow> string \<Rightarrow> 'x init_error + GeminiSettings" where
  "parseAndValidate codec jsonString =
     (case JSON_parse codec jsonString of
        Inl msg \<Rightarrow> Inl (InvalidSettingsJson (Inl msg))
      | Inr parsed \<Rightarrow>
          (case validateSettings parsed of
             Some err \<Rightarrow> Inl (InvalidSettingsJson (Inr err))
           | None \<Rightarrow> Inr parsed))"

text \<open>The \<^verbatim>\<open>try\<close> block of \<^verbatim>\<open>mergeSettings\<close> (lines 67-89).\<close>

definition mergeSettings_try ::
  "('w, 'x) lib_ops \<Rightarrow> json_codec \<Rightarrow> string \<Rightarrow> GeminiSettings \<Rightarrow> 'w \<Rightarrow> ('x init_error + unit) \<times> 'w" where
  "mergeSettings_try fsx codec settingsPath newSettings w =
     (case pathExists fsx settingsPath w of
        (Inl x, w1) \<Rightarrow> (Inl (FsError x), w1)
      | (Inr ex, w1) \<Rightarrow>
          (case (if ex then
                   (case readFile fsx settingsPath w1 of
                      (Inl x, w2) \<Rightarrow> (Inl (FsError x), w2)
                    | (Inr content, w2) \<Rightarrow> (parseAndValidate codec content, w2))
                 else (Inr \<lparr>settings_hooks = None\<rparr>, w1)) of
             (Inl e, w2) \<Rightarrow> (Inl e, w2)
           | (Inr existing, w2) \<Rightarrow>
               (let merged = deepMerge existing newSettings in
                case validateSettings merged of
                  Some err \<Rightarrow> (Inl (SettingsInvalid err), w2)
                | None \<Rightarrow>
                    (case writeFile fsx settingsPath (JSON_stringify codec merged @ [CHR 0x0A]) w2 of
                       (Inl x, w3) \<Rightarrow> (Inl (FsError x), w3)
                     | (Inr u, w3) \<Rightarrow> (Inr (), w3)))))"

text \<open>
  \<^verbatim>\<open>mergeSettings\<close> (lines 52-97); \<open>now\<close> is the text of \<^verbatim>\<open>Date.now()\<close>. The directory
  and the backup are made before the \<^verbatim>\<open>try\<close>; the \<^verbatim>\<open>catch\<close> restores the backup when
  there is one, and throws the error again. An operation that throws inside the
  \<^verbatim>\<open>catch\<close> replaces the error.
\<close>

definition settingsPath_of :: "('w, 'x) lib_ops \<Rightarrow> string \<Rightarrow> string" where
  "settingsPath_of fsx projectRoot = path_join fsx [projectRoot, ''.gemini'', ''settings.json'']"

definition backupPath_of :: "('w, 'x) lib_ops \<Rightarrow> string \<Rightarrow> string \<Rightarrow> string" where
  "backupPath_of fsx projectRoot now = settingsPath_of fsx projectRoot @ ''.backup.'' @ now"

definition mergeSettings ::
  "('w, 'x) lib_ops \<Rightarrow> json_codec \<Rightarrow> string \<Rightarrow> string \<Rightarrow> GeminiSettings \<Rightarrow> 'w \<Rightarrow> ('x init_error + unit) \<times> 'w" where
  "mergeSettings fsx codec now projectRoot newSettings w =
     (let settingsPath = settingsPath_of fsx projectRoot;
          backupPath = backupPath_of fsx projectRoot now in
      case ensureDir fsx (path_join fsx [projectRoot, ''.gemini'']) w of
        (Inl x, w0) \<Rightarrow> (Inl (FsError x), w0)
      | (Inr u0, w0) \<Rightarrow>
          (case pathExists fsx settingsPath w0 of
             (Inl x, w1) \<Rightarrow> (Inl (FsError x), w1)
           | (Inr ex, w1) \<Rightarrow>
               (case (if ex then copy fsx settingsPath backupPath w1 else (Inr (), w1)) of
                  (Inl x, w2) \<Rightarrow> (Inl (FsError x), w2)
                | (Inr u1, w2) \<Rightarrow>
                    (case mergeSettings_try fsx codec settingsPath newSettings w2 of
                       (Inr u2, w3) \<Rightarrow> (Inr (), w3)
                     | (Inl error, w3) \<Rightarrow>
                         (case pathExists fsx backupPath w3 of
                            (Inl x, w4) \<Rightarrow> (Inl (FsError x), w4)
                          | (Inr bex, w4) \<Rightarrow>
                              (if bex then
                                 (case copy fsx backupPath settingsPath w4 of
                                    (Inl x, w5) \<Rightarrow> (Inl (FsError x), w5)
                                  | (Inr u3, w5) \<Rightarrow> (Inl error, w5))
                               else (Inl error, w4)))))))"

section \<open>The assistant configurers\<close>








subsection \<open>GeminiConfigurer\<close>





subsection \<open>CopilotConfigurer\<close>




subsection \<open>CursorConfigurer\<close>






subsection \<open>A reference file system\<close>

text \<open>
  An in-memory file system to run the file operations on: a world maps a path to the
  content of the file there. A plan says which operation throws on which path; a
  \<^verbatim>\<open>writeFile\<close> that throws may leave anything behind (\<open>Some left\<close>: the file is then
  \<open>left\<close>, which may be no file at all). \<^verbatim>\<open>pathExists\<close> never throws (it answers
  \<^verbatim>\<open>false\<close> instead); a read or a copy that throws changes nothing. Its \<^verbatim>\<open>path.join\<close>
  puts \<open>/\<close> between the segments that are not empty, and its \<^verbatim>\<open>trim\<close> and \<^verbatim>\<open>trimEnd\<close>
  strip the six ASCII white-space characters: enough for the paths and texts of the runs
  below, which have no \<open>.\<close> or \<open>..\<close> segments and no other white space.
\<close>

datatype io_error = EACCES | ENOENT | ENOSPC

record fs_plan =
  ensureDir_throws :: "string \<Rightarrow> bool"
  readFile_throws :: "string \<Rightarrow> bool"
  writeFile_throws :: "string \<Rightarrow> string option option"
  copy_throws :: "string \<Rightarrow> string \<Rightarrow> bool"

type_synonym files = "string \<Rightarrow> string option"

definition ref_path_join :: "string list \<Rightarrow> string" where
  "ref_path_join segments =
     (case filter (\<lambda>seg. seg \<noteq> []) segments of
        [] \<Rightarrow> ''.''
      | seg # rest \<Rightarrow> foldl (\<lambda>joined nxt. joined @ ''/'' @ nxt) seg rest)"

definition is_ws :: "char \<Rightarrow> bool" where
  "is_ws c = (c \<in> set [CHR '' '', CHR 0x09, CHR 0x0A, CHR 0x0B, CHR 0x0C, CHR 0x0D])"

definition ref_trimEnd :: "string \<Rightarrow> string" where
  "ref_trimEnd s = rev (dropWhile is_ws (rev s))"

definition ref_trim :: "string \<Rightarrow> string" where
  "ref_trim s = dropWhile is_ws (ref_trimEnd s)"

definition mem_fs :: "fs_plan \<Rightarrow> (files, io_error) lib_ops" where
  "mem_fs plan =
     \<lparr> ensureDir = (\<lambda>d w. if ensureDir_throws plan d then (Inl EACCES, w) else (Inr (), w)),
       pathExists = (\<lambda>p w. (Inr (w p \<noteq> None), w)),
       readFile = (\<lambda>p w. if readFile_throws plan p then (Inl EACCES, w)
                          else (case w p of None \<Rightarrow> (Inl ENOENT, w) | Some c \<Rightarrow> (Inr c, w))),
       writeFile = (\<lambda>p c w. case writeFile_throws plan p of
                                Some left \<Rightarrow> (Inl ENOSPC, w(p := left))
                              | None \<Rightarrow> (Inr (), w(p \<mapsto> c))),
       copy = (\<lambda>a b w. if copy_throws plan a b then (Inl EACCES, w)
                        else (case w a of None \<Rightarrow> (Inl ENOENT, w)
                                        | Some c \<Rightarrow> (Inr (), w(b \<mapsto> c)))),
       path_join = ref_path_join, str_trim = ref_trim, str_trimEnd = ref_trimEnd \<rparr>"

definition no_faults :: fs_plan where
  "no_faults =
     \<lparr> ensureDir_throws = (\<lambda>d. False), readFile_throws = (\<lambda>p. False),
       writeFile_throws = (\<lambda>p. None), copy_throws = (\<lambda>a b. False) \<rparr>"




text \<open>
  A stand-in for \<^verbatim>\<open>JSON.stringify\<close> and \<^verbatim>\<open>JSON.parse\<close>: \<open>render\<close> writes the matchers and
  the commands of their hooks in order, and the codec for a list of known documents
  parses a text back to the first known document that renders to it, white space around
  the text aside; any other text is a syntax error.
\<close>

definition render_matcher :: "GeminiSessionStartMatcher \<Rightarrow> string" where
  "render_matcher m =
     ''{'' @ matcher m @ '':'' @ concat (map (\<lambda>h. ''<'' @ command h @ ''>'') (hooks m)) @ ''}''"

definition render :: "GeminiSettings \<Rightarrow> string" where
  "render m =
     (case settings_hooks m of
        None \<Rightarrow> ''{}''
      | Some h \<Rightarrow>
          (case SessionStart h of
             None \<Rightarrow> ''{hooks:{}}''
           | Some l \<Rightarrow> ''{hooks:{SessionStart:['' @ concat (map render_matcher l) @ '']}}''))"

definition table_codec :: "GeminiSettings list \<Rightarrow> json_codec" where
  "table_codec known =
     \<lparr> JSON_parse = (\<lambda>s. case find (\<lambda>d. render d = ref_trim s) known of
                             Some d \<Rightarrow> Inr d
                           | None \<Rightarrow> Inl ''Unexpected token''),
       JSON_stringify = render \<rparr>"

definition no_files :: files where
  "no_files = (\<lambda>p. None)"


text \<open>Settings that ask for the same hook twice under one matcher.\<close>

definition sessionHook :: GeminiHook where
  "sessionHook = \<lparr> hook_type = ''command'', command = ''jumbo session start'' \<rparr>"

definition twice_settings :: GeminiSettings where
  "twice_settings =
     \<lparr> settings_hooks = Some \<lparr> SessionStart = Some
         [\<lparr> matcher = ''startup'', hooks = [sessionHook, sessionHook] \<rparr>] \<rparr> \<rparr>"

definition empty_settings :: GeminiSettings where
  "empty_settings = \<lparr> settings_hooks = None \<rparr>"

text \<open>What merging \<open>twice_settings\<close> into nothing gives, and the codec that knows it.\<close>

definition merged_once :: GeminiSettings where
  "merged_once = deepMerge empty_settings twice_settings"

definition toy_codec :: json_codec where
  "toy_codec = table_codec [empty_settings, merged_once]"

section \<open>The claims' own words\<close>

text \<open>
  "At least one of the eight fixed optional fields is present on the command", as the
  specification says it: a field is present when it is not \<^verbatim>\<open>undefined\<close>.
\<close>

definition some_field_present :: "'o AddGoalCommand \<Rightarrow> bool" where
  "some_field_present cmd =
     (relevantInvariants cmd \<noteq> None \<or> relevantGuidelines cmd \<noteq> None \<or>
      relevantDependencies cmd \<noteq> None \<or> relevantComponents cmd \<noteq> None \<or>
      architecture_cmd cmd \<noteq> None \<or> filesToBeCreated cmd \<noteq> None \<or>
      filesToBeChanged cmd \<noteq> None \<or> nextGoalId cmd \<noteq> None)"


section \<open>Properties of the qualifier\<close>

text \<open>
  Claim C10. For every view the reader returns, \<^verbatim>\<open>isUnprimed\<close> answers true exactly when
  the architecture is \<^verbatim>\<open>null\<close> and the components, decisions, invariants and guidelines
  are all empty.
\<close>

theorem isUnprimed_iff_no_context:
  "isUnprimed (Inr context) =
     Inr (architecture context = None \<and> components context = [] \<and> decisions context = []
          \<and> invariants context = [] \<and> guidelines context = [])"
  by (simp add: isUnprimed_def)

theorem isUnprimed_iff_no_context_witness:
  "isUnprimed (Inr \<lparr>architecture = None :: unit option, components = [] :: unit list,
       decisions = [] :: unit list, invariants = [(1::nat)], guidelines = [] :: unit list\<rparr>
     :: unit + (unit, unit, unit, nat, unit) SolutionContextView) = Inr False"
  using isUnprimed_iff_no_context [of "\<lparr>architecture = None :: unit option,
       components = [] :: unit list, decisions = [] :: unit list, invariants = [(1::nat)],
       guidelines = [] :: unit list\<rparr>"]
  by simp

section \<open>Properties of the handler\<close>

lemma await_pair:
  "await c p (w, l) = (fst (p w), snd (p w), l @ [(c, outcome_of (fst (p w)))])"
  by (simp add: await_def split: prod.splits)

lemmas ref_defs = ref_deps_def ref_deps_unwired_def ref_Goal_def ref_append_def
  ref_publish_def ref_readStream_def ref_findById_def plain_command_def
  command_after_def world_a_def

lemmas handler_defs = execute_def updatePreviousGoalNextGoalId_def await_pair outcome_of_def
  buildEmbeddedContext_def hasEmbeddedContext_def truthy_obj_def truthy_str_def Let_def
  calls_of_def result_of_def nextGoalIdOnly_def goalId_of_def

text \<open>
  Claim C1. In every run of \<^verbatim>\<open>execute\<close>, an event is published only after an append of
  that event has returned, and a call that throws is the last call of the run: after an
  append that throws nothing is published. This covers the add event and the
  chain-update event.
\<close>

theorem publish_only_after_append:
  "published_committed [] (calls_of (execute deps ops uuid cmd (w, [])))
   \<and> stops_at_throw (calls_of (execute deps ops uuid cmd (w, [])))"
  by (auto simp add: execute_def updatePreviousGoalNextGoalId_def await_pair calls_of_def
        outcome_of_def Let_def
      split: sum.splits option.splits prod.splits)

theorem publish_only_after_append_witness:
  "calls_of (execute ref_deps ref_Goal ''b'' (command_after ''goal_a'')
               (world_a\<lparr>store_down := True\<rparr>, []))
     = [(EventWriterAppend (GoalAddedEvent ''goal_b'' ''ship'' None), Threw)]
   \<and> published_committed [] [(EventWriterAppend (GoalAddedEvent ''goal_b'' ''ship'' None), Threw)]
   \<and> stops_at_throw [(EventWriterAppend (GoalAddedEvent ''goal_b'' ''ship'' None), Threw)]"
  using publish_only_after_append [of ref_deps ref_Goal "''b''" "command_after ''goal_a''"
          "world_a\<lparr>store_down := True\<rparr>"]
  by (simp add: handler_defs ref_defs)

lemma buildEmbeddedContext_Some_iff:
  "(buildEmbeddedContext cmd \<noteq> None) =
     (relevantInvariants cmd \<noteq> None \<or> relevantGuidelines cmd \<noteq> None \<or>
      relevantDependencies cmd \<noteq> None \<or> relevantComponents cmd \<noteq> None \<or>
      architecture_cmd cmd \<noteq> None \<or> filesToBeCreated cmd \<noteq> None \<or>
      filesToBeChanged cmd \<noteq> None \<or> (\<exists>s. nextGoalId cmd = Some s \<and> s \<noteq> []))"
  by (cases "nextGoalId cmd")
     (simp_all add: buildEmbeddedContext_def hasEmbeddedContext_def truthy_obj_def truthy_str_def)

lemma updatePrevious_ignores_Goal_add:
  "updatePreviousGoalNextGoalId deps (ops\<lparr>Goal_add := f\<rparr>) X gid st =
   updatePreviousGoalNextGoalId deps ops X gid st"
proof -
  have r: "Goal_rehydrate (ops\<lparr>Goal_add := f\<rparr>) = Goal_rehydrate ops" by simp
  have u: "Goal_update (ops\<lparr>Goal_add := f\<rparr>) = Goal_update ops" by simp
  show ?thesis unfolding updatePreviousGoalNextGoalId_def r u ..
qed

text \<open>
  Claim C6, as stated, fails: a command whose only optional field is \<^verbatim>\<open>nextGoalId\<close>,
  set to the empty string, has a field present, and the handler builds no embedded
  context for it.
\<close>

theorem embeddedContext_empty_nextGoalId_counterexample:
  "some_field_present (plain_command\<lparr>nextGoalId := Some ''''\<rparr>)
   \<and> buildEmbeddedContext (plain_command\<lparr>nextGoalId := Some ''''\<rparr>) = None"
  by (simp add: some_field_present_def handler_defs ref_defs)

text \<open>
  Claim C6, amended. The handler builds an embedded context exactly when one of the seven
  array or object fields is present or \<^verbatim>\<open>nextGoalId\<close> is a non-empty string; and the
  context argument that \<^verbatim>\<open>execute\<close> gives to \<^verbatim>\<open>goal.add\<close> is that value: the run is the
  same with a \<^verbatim>\<open>goal.add\<close> that takes \<open>buildEmbeddedContext cmd\<close> whatever it is given.
\<close>

theorem embeddedContext_iff_truthy_field:
  "(buildEmbeddedContext cmd \<noteq> None) =
     (relevantInvariants cmd \<noteq> None \<or> relevantGuidelines cmd \<noteq> None \<or>
      relevantDependencies cmd \<noteq> None \<or> relevantComponents cmd \<noteq> None \<or>
      architecture_cmd cmd \<noteq> None \<or> filesToBeCreated cmd \<noteq> None \<or>
      filesToBeChanged cmd \<noteq> None \<or> (\<exists>s. nextGoalId cmd = Some s \<and> s \<noteq> []))
   \<and> execute deps ops uuid cmd st =
       execute deps (ops\<lparr>Goal_add := \<lambda>g ob sc si so b ctx.
                       Goal_add ops g ob sc si so b (buildEmbeddedContext cmd)\<rparr>) uuid cmd st"
proof
  show "(buildEmbeddedContext cmd \<noteq> None) =
     (relevantInvariants cmd \<noteq> None \<or> relevantGuidelines cmd \<noteq> None \<or>
      relevantDependencies cmd \<noteq> None \<or> relevantComponents cmd \<noteq> None \<or>
      architecture_cmd cmd \<noteq> None \<or> filesToBeCreated cmd \<noteq> None \<or>
      filesToBeChanged cmd \<noteq> None \<or> (\<exists>s. nextGoalId cmd = Some s \<and> s \<noteq> []))"
    by (rule buildEmbeddedContext_Some_iff)
next
  show "execute deps ops uuid cmd st =
       execute deps (ops\<lparr>Goal_add := \<lambda>g ob sc si so b ctx.
                       Goal_add ops g ob sc si so b (buildEmbeddedContext cmd)\<rparr>) uuid cmd st"
  proof -
    let ?f = "\<lambda>g ob sc si so b ctx. Goal_add ops g ob sc si so b (buildEmbeddedContext cmd)"
    have c: "Goal_create (ops\<lparr>Goal_add := ?f\<rparr>) = Goal_create ops" by simp
    have a: "\<And>g ob sc si so b.
               Goal_add (ops\<lparr>Goal_add := ?f\<rparr>) g ob sc si so b (buildEmbeddedContext cmd)
               = Goal_add ops g ob sc si so b (buildEmbeddedContext cmd)" by simp
    show ?thesis
      unfolding execute_def Let_def updatePrevious_ignores_Goal_add c a ..
  qed
qed

theorem embeddedContext_iff_truthy_field_witness:
  "buildEmbeddedContext (plain_command\<lparr>nextGoalId := Some ''goal_n''\<rparr>) \<noteq> None
   \<and> buildEmbeddedContext plain_command = None"
  using embeddedContext_iff_truthy_field
          [THEN conjunct1, of "plain_command\<lparr>nextGoalId := Some ''goal_n''\<rparr>"]
        embeddedContext_iff_truthy_field [THEN conjunct1, of plain_command]
  by (simp add: plain_command_def)

lemmas log_defs = appended_by_updateEventWriter_def appended_by_eventWriter_def


lemma execute_after_add:
  assumes "Goal_create ops (goalId_of uuid) = Inr g"
    and "Goal_add ops g (objective cmd) (successCriteria cmd) (scopeIn cmd) (scopeOut cmd)
           (boundaries cmd) (buildEmbeddedContext cmd) = Inr ev"
    and "eventWriter deps ev w = (Inr (), w1)"
    and "eventBus deps ev w1 = (Inr (), w2)"
  shows "execute deps ops uuid cmd (w, []) =
     (if truthy_str (previousGoalId cmd) then
        (case updatePreviousGoalNextGoalId deps ops (the (previousGoalId cmd)) (goalId_of uuid)
                (w2, [(EventWriterAppend ev, Returned), (EventBusPublish ev, Returned)]) of
           (Inl e, s3) \<Rightarrow> (Inl e, s3)
         | (Inr u, s3) \<Rightarrow> (Inr (goalId_of uuid), s3))
      else (Inr (goalId_of uuid), w2,
            [(EventWriterAppend ev, Returned), (EventBusPublish ev, Returned)]))"
  using assms by (simp add: execute_def await_pair outcome_of_def Let_def)



lemma apply_events_keep_id: "goal_id (foldl apply_event pg history) = goal_id pg"
proof (induction history arbitrary: pg)
  case Nil
  then show ?case by simp
next
  case (Cons e es)
  have "goal_id (apply_event pg e) = goal_id pg"
    by (cases e) (auto split: option.splits)
  then show ?case using Cons by simp
qed

lemma ref_update_as_specified:
  assumes "Goal_rehydrate ref_Goal i history = Inr pg"
    and "Goal_update ref_Goal pg None None None None None (Some ctx) = Inr uev"
  shows "streamId uev = i
         \<and> (\<forall>n. ctx_nextGoalId ctx = Some n \<longrightarrow> payload_nextGoalId uev = Some n)"
  using assms by (auto simp add: ref_Goal_def apply_events_keep_id split: if_splits)

text \<open>
  On the reference environment no run of \<^verbatim>\<open>execute\<close> publishes an event under the empty
  id: the new id starts with \<^verbatim>\<open>goal_\<close>, and an update goes to a goal the finder found. So
  in every world reached from one without such an event, the finder finds nothing under
  the empty id.
\<close>

lemma ref_execute_keeps_no_blank_id:
  assumes "\<not> list_ex (\<lambda>e. streamId e = []) (published w)"
  shows "\<not> list_ex (\<lambda>e. streamId e = [])
           (published (fst (snd (execute ref_deps ref_Goal uuid cmd (w, l)))))"
  using assms
  by (auto simp add: execute_def updatePreviousGoalNextGoalId_def await_def outcome_of_def
        Let_def goalId_of_def truthy_str_def ref_deps_def ref_Goal_def ref_append_def
        ref_publish_def ref_readStream_def ref_findById_def apply_events_keep_id list_ex_iff
      split: if_splits option.splits)

text \<open>
  Claim C2. The chaining collaborators are present and the add event has been appended
  and published, leaving the world \<open>w2\<close>, whose read model holds no goal under the empty
  id (every id is \<^verbatim>\<open>goal_\<close> and a uuid, line 30). \<^verbatim>\<open>Goal.update\<close> is as the specification
  has it: on a goal rehydrated for an id it gives an event of that id's stream whose
  payload carries the \<^verbatim>\<open>nextGoalId\<close> given. Then, for a command with
  \<^verbatim>\<open>previousGoalId = X\<close>: if the finder finds \<open>X\<close> in \<open>w2\<close> and \<^verbatim>\<open>execute\<close> succeeds, it
  returns the new id, and the run is the append and publish of the add event, the finder
  call, the read of the stream of \<open>X\<close> in the world the finder left, and then the append
  and the publish of exactly one update event, made by \<^verbatim>\<open>update\<close> on the goal rehydrated
  from the history read, on the stream of \<open>X\<close>, with \<^verbatim>\<open>nextGoalId\<close> the new id. If the
  finder returns \<^verbatim>\<open>null\<close> for \<open>X\<close> in \<open>w2\<close>, no update event is appended, the add event
  is the one event appended, and the run ends with the finder call (or, for the empty
  \<open>X\<close>, before it).
\<close>

theorem chain_update_appended_once:
  assumes prev: "previousGoalId cmd = Some X"
    and uw: "updateEventWriter deps = Some uw"
    and ur: "updateEventReader deps = Some ur"
    and gr: "goalReader deps = Some gr"
    and create: "Goal_create ops (goalId_of uuid) = Inr g"
    and add: "Goal_add ops g (objective cmd) (successCriteria cmd) (scopeIn cmd) (scopeOut cmd)
           (boundaries cmd) (buildEmbeddedContext cmd) = Inr ev"
    and app: "eventWriter deps ev w = (Inr (), w1)"
    and pub: "eventBus deps ev w1 = (Inr (), w2)"
    and no_blank: "fst (gr [] w2) = Inr None"
    and upd: "\<And>i history pg ctx uev.
        Goal_rehydrate ops i history = Inr pg \<Longrightarrow>
        Goal_update ops pg None None None None None (Some ctx) = Inr uev \<Longrightarrow>
        ev_stream uev = i \<and> (\<forall>n. ctx_nextGoalId ctx = Some n \<longrightarrow> ev_nextGoalId uev = Some n)"
  shows "(gr X w2 = (Inr (Some summary), w3)
          \<and> result_of (execute deps ops uuid cmd (w, [])) = Inr gid \<longrightarrow>
          gid = goalId_of uuid \<and>
          (\<exists>history w4 previousGoal updateEvent w5 w6.
             ur X w3 = (Inr history, w4)
             \<and> Goal_rehydrate ops X history = Inr previousGoal
             \<and> Goal_update ops previousGoal None None None None None
                  (Some (nextGoalIdOnly gid)) = Inr updateEvent
             \<and> ev_stream updateEvent = X \<and> ev_nextGoalId updateEvent = Some gid
             \<and> uw updateEvent w4 = (Inr (), w5)
             \<and> eventBus deps updateEvent w5 = (Inr (), w6)
             \<and> execute deps ops uuid cmd (w, []) =
                 (Inr gid, w6,
                  [(EventWriterAppend ev, Returned), (EventBusPublish ev, Returned),
                   (GoalReaderFindById X, Returned), (UpdateEventReaderReadStream X, Returned),
                   (UpdateEventWriterAppend updateEvent, Returned),
                   (EventBusPublish updateEvent, Returned)])
             \<and> appended_by_updateEventWriter (calls_of (execute deps ops uuid cmd (w, [])))
                 = [updateEvent]))
     \<and> (fst (gr X w2) = Inr None \<longrightarrow>
          calls_of (execute deps ops uuid cmd (w, [])) =
            [(EventWriterAppend ev, Returned), (EventBusPublish ev, Returned)]
            @ (if X = [] then [] else [(GoalReaderFindById X, Returned)])
          \<and> appended_by_updateEventWriter (calls_of (execute deps ops uuid cmd (w, []))) = []
          \<and> appended_by_eventWriter (calls_of (execute deps ops uuid cmd (w, []))) = [ev])"
proof (intro conjI impI)
  assume a: "gr X w2 = (Inr (Some summary), w3)
          \<and> result_of (execute deps ops uuid cmd (w, [])) = Inr gid"
  then have found: "gr X w2 = (Inr (Some summary), w3)"
    and ok: "result_of (execute deps ops uuid cmd (w, [])) = Inr gid" by simp_all
  have X: "X \<noteq> []" using found no_blank by auto
  have t: "truthy_str (previousGoalId cmd)" using prev X by (simp add: truthy_str_def)
  have e: "execute deps ops uuid cmd (w, []) =
        (case updatePreviousGoalNextGoalId deps ops X (goalId_of uuid)
                (w2, [(EventWriterAppend ev, Returned), (EventBusPublish ev, Returned)]) of
           (Inl e, s3) \<Rightarrow> (Inl e, s3)
         | (Inr u, s3) \<Rightarrow> (Inr (goalId_of uuid), s3))"
    using execute_after_add [OF create add app pub] t prev by simp
  show "gid = goalId_of uuid"
    using ok e by (auto simp add: result_of_def split: prod.splits sum.splits)
  then have gid: "gid = goalId_of uuid" .
  obtain history w4 where rd: "ur X w3 = (Inr history, w4)"
    using ok e uw ur gr found
    by (cases "ur X w3")
       (auto simp add: result_of_def updatePreviousGoalNextGoalId_def await_pair outcome_of_def
          split: prod.splits sum.splits)
  obtain previousGoal where rh: "Goal_rehydrate ops X history = Inr previousGoal"
    using ok e uw ur gr found rd
    by (cases "Goal_rehydrate ops X history")
       (auto simp add: result_of_def updatePreviousGoalNextGoalId_def await_pair outcome_of_def
          split: prod.splits sum.splits)
  obtain updateEvent where up: "Goal_update ops previousGoal None None None None None
                  (Some (nextGoalIdOnly gid)) = Inr updateEvent"
    using ok e uw ur gr found rd rh gid
    by (cases "Goal_update ops previousGoal None None None None None
                  (Some (nextGoalIdOnly (goalId_of uuid)))")
       (auto simp add: result_of_def updatePreviousGoalNextGoalId_def await_pair outcome_of_def
          split: prod.splits sum.splits)
  obtain w5 where ap: "uw updateEvent w4 = (Inr (), w5)"
    using ok e uw ur gr found rd rh up gid
    by (cases "uw updateEvent w4")
       (auto simp add: result_of_def updatePreviousGoalNextGoalId_def await_pair outcome_of_def
          split: prod.splits sum.splits)
  obtain w6 where pb: "eventBus deps updateEvent w5 = (Inr (), w6)"
    using ok e uw ur gr found rd rh up ap gid
    by (cases "eventBus deps updateEvent w5")
       (auto simp add: result_of_def updatePreviousGoalNextGoalId_def await_pair outcome_of_def
          split: prod.splits sum.splits)
  have sp: "ev_stream updateEvent = X \<and> ev_nextGoalId updateEvent = Some gid"
    using upd [OF rh up] by (simp add: nextGoalIdOnly_def)
  have run: "execute deps ops uuid cmd (w, []) =
                 (Inr gid, w6,
                  [(EventWriterAppend ev, Returned), (EventBusPublish ev, Returned),
                   (GoalReaderFindById X, Returned), (UpdateEventReaderReadStream X, Returned),
                   (UpdateEventWriterAppend updateEvent, Returned),
                   (EventBusPublish updateEvent, Returned)])"
    using e uw ur gr found rd rh up ap pb gid
    by (simp add: updatePreviousGoalNextGoalId_def await_pair outcome_of_def)
  have one: "appended_by_updateEventWriter (calls_of (execute deps ops uuid cmd (w, [])))
                 = [updateEvent]"
    by (simp add: run calls_of_def appended_by_updateEventWriter_def)
  show "\<exists>history w4 previousGoal updateEvent w5 w6.
             ur X w3 = (Inr history, w4)
             \<and> Goal_rehydrate ops X history = Inr previousGoal
             \<and> Goal_update ops previousGoal None None None None None
                  (Some (nextGoalIdOnly gid)) = Inr updateEvent
             \<and> ev_stream updateEvent = X \<and> ev_nextGoalId updateEvent = Some gid
             \<and> uw updateEvent w4 = (Inr (), w5)
             \<and> eventBus deps updateEvent w5 = (Inr (), w6)
             \<and> execute deps ops uuid cmd (w, []) =
                 (Inr gid, w6,
                  [(EventWriterAppend ev, Returned), (EventBusPublish ev, Returned),
                   (GoalReaderFindById X, Returned), (UpdateEventReaderReadStream X, Returned),
                   (UpdateEventWriterAppend updateEvent, Returned),
                   (EventBusPublish updateEvent, Returned)])
             \<and> appended_by_updateEventWriter (calls_of (execute deps ops uuid cmd (w, [])))
                 = [updateEvent]"
    using rd rh up sp ap pb run one by blast
next
  assume nf: "fst (gr X w2) = Inr None"
  have c: "calls_of (execute deps ops uuid cmd (w, [])) =
            [(EventWriterAppend ev, Returned), (EventBusPublish ev, Returned)]
            @ (if X = [] then [] else [(GoalReaderFindById X, Returned)])"
    using execute_after_add [OF create add app pub] prev uw ur gr nf
    by (auto simp add: truthy_str_def calls_of_def updatePreviousGoalNextGoalId_def await_pair
          outcome_of_def split: prod.splits sum.splits option.splits)
  show "calls_of (execute deps ops uuid cmd (w, [])) =
            [(EventWriterAppend ev, Returned), (EventBusPublish ev, Returned)]
            @ (if X = [] then [] else [(GoalReaderFindById X, Returned)])" by (rule c)
  show "appended_by_updateEventWriter (calls_of (execute deps ops uuid cmd (w, []))) = []"
    by (simp add: c appended_by_updateEventWriter_def)
  show "appended_by_eventWriter (calls_of (execute deps ops uuid cmd (w, []))) = [ev]"
    by (simp add: c appended_by_eventWriter_def)
qed

theorem chain_update_appended_once_witness:
  "execute ref_deps ref_Goal ''b'' (command_after ''goal_a'') (world_a, []) =
     (Inr ''goal_b'',
      world_a\<lparr>streams := (streams world_a)
                 (''goal_b'' := [GoalAddedEvent ''goal_b'' ''ship'' None],
                  ''goal_a'' := [GoalAddedEvent ''goal_a'' ''ship'' None,
                                 GoalUpdatedEvent ''goal_a'' (Some ''goal_b'')]),
              published := published world_a @ [GoalAddedEvent ''goal_b'' ''ship'' None,
                                                GoalUpdatedEvent ''goal_a'' (Some ''goal_b'')]\<rparr>,
      [(EventWriterAppend (GoalAddedEvent ''goal_b'' ''ship'' None), Returned),
       (EventBusPublish (GoalAddedEvent ''goal_b'' ''ship'' None), Returned),
       (GoalReaderFindById ''goal_a'', Returned),
       (UpdateEventReaderReadStream ''goal_a'', Returned),
       (UpdateEventWriterAppend (GoalUpdatedEvent ''goal_a'' (Some ''goal_b'')), Returned),
       (EventBusPublish (GoalUpdatedEvent ''goal_a'' (Some ''goal_b'')), Returned)])
   \<and> streamId (GoalUpdatedEvent ''goal_a'' (Some ''goal_b'')) = ''goal_a''
   \<and> payload_nextGoalId (GoalUpdatedEvent ''goal_a'' (Some ''goal_b'')) = Some ''goal_b''"
proof -
  let ?add = "GoalAddedEvent ''goal_b'' ''ship'' None"
  let ?w1 = "world_a\<lparr>streams := (streams world_a)(''goal_b'' := [?add])\<rparr>"
  let ?w2 = "?w1\<lparr>published := published world_a @ [?add]\<rparr>"
  have h1: "previousGoalId (command_after ''goal_a'') = Some ''goal_a''"
    by (simp add: ref_defs)
  have h2: "updateEventWriter ref_deps = Some ref_append"
    and h3: "updateEventReader ref_deps = Some ref_readStream"
    and h4: "goalReader ref_deps = Some ref_findById"
    by (simp_all add: ref_defs)
  have h5: "Goal_create ref_Goal (goalId_of ''b'') =
              Inr \<lparr>goal_id = ''goal_b'', goal_objective = None, goal_nextGoalId = None\<rparr>"
    by (simp add: ref_defs goalId_of_def)
  have h6: "Goal_add ref_Goal \<lparr>goal_id = ''goal_b'', goal_objective = None, goal_nextGoalId = None\<rparr>
              (objective (command_after ''goal_a'')) (successCriteria (command_after ''goal_a''))
              (scopeIn (command_after ''goal_a'')) (scopeOut (command_after ''goal_a''))
              (boundaries (command_after ''goal_a''))
              (buildEmbeddedContext (command_after ''goal_a'')) = Inr ?add"
    by (simp add: ref_defs handler_defs)
  have h7: "eventWriter ref_deps ?add world_a = (Inr (), ?w1)"
    by (simp add: ref_defs)
  have h8: "eventBus ref_deps ?add ?w1 = (Inr (), ?w2)"
    by (simp add: ref_defs)
  have h9: "fst (ref_findById [] ?w2) = Inr None"
    by (simp add: ref_defs)
  have found: "ref_findById ''goal_a'' ?w2 = (Inr (Some ''goal_a''), ?w2)"
    by (simp add: ref_defs)
  have ok: "result_of (execute ref_deps ref_Goal ''b'' (command_after ''goal_a'') (world_a, []))
              = Inr ''goal_b''"
    by (simp add: handler_defs log_defs ref_defs)
  from chain_update_appended_once
         [where ev_stream = streamId and ev_nextGoalId = payload_nextGoalId
            and summary = "''goal_a''" and ?w3.0 = ?w2 and gid = "''goal_b''",
          OF h1 h2 h3 h4 h5 h6 h7 h8 h9 ref_update_as_specified, THEN conjunct1]
       found ok
  show ?thesis
    by (auto simp add: ref_defs handler_defs log_defs fun_upd_twist)
qed

text \<open>
  Claim C3, as stated, fails at the empty id: the finder returns \<^verbatim>\<open>null\<close> for
  \<^verbatim>\<open>previousGoalId = ""\<close>, and \<^verbatim>\<open>execute\<close> returns the new goal id after two calls, the
  finder not among them.
\<close>

theorem notFound_skipped_for_empty_id_counterexample:
  "previousGoalId (command_after '''') = Some ''''
   \<and> fst (ref_findById ''''
            (fst (snd (execute ref_deps ref_Goal ''b'' (command_after '''') (world_a, [])))))
       = Inr None
   \<and> result_of (execute ref_deps ref_Goal ''b'' (command_after '''') (world_a, []))
       = Inr ''goal_b''
   \<and> calls_of (execute ref_deps ref_Goal ''b'' (command_after '''') (world_a, [])) =
        [(EventWriterAppend (GoalAddedEvent ''goal_b'' ''ship'' None), Returned),
         (EventBusPublish (GoalAddedEvent ''goal_b'' ''ship'' None), Returned)]"
  by (simp add: handler_defs log_defs ref_defs)

text \<open>
  Claim C3, amended. For a command whose \<^verbatim>\<open>previousGoalId\<close> is a non-empty string \<open>X\<close>,
  with the three chaining collaborators wired and the add event appended and published:
  if the finder returns \<^verbatim>\<open>null\<close> for \<open>X\<close>, \<^verbatim>\<open>execute\<close> fails with the not-found error
  that carries \<open>X\<close>, and the finder call is the last call of the run: the stream of \<open>X\<close>
  is not read and no update event is appended.
\<close>

theorem missing_previous_goal_fails_NotFound:
  assumes "previousGoalId cmd = Some X" and "X \<noteq> []"
    and "updateEventWriter deps = Some uw" and "updateEventReader deps = Some ur"
    and "goalReader deps = Some gr"
    and "Goal_create ops (goalId_of uuid) = Inr g"
    and "Goal_add ops g (objective cmd) (successCriteria cmd) (scopeIn cmd) (scopeOut cmd)
           (boundaries cmd) (buildEmbeddedContext cmd) = Inr ev"
    and "eventWriter deps ev w = (Inr (), w1)"
    and "eventBus deps ev w1 = (Inr (), w2)"
    and "gr X w2 = (Inr None, w3)"
  shows "execute deps ops uuid cmd (w, []) =
     (Inl (GoalNotFound X), w3,
      [(EventWriterAppend ev, Returned), (EventBusPublish ev, Returned),
       (GoalReaderFindById X, Returned)])"
  using assms
  by (simp add: execute_after_add truthy_str_def updatePreviousGoalNextGoalId_def await_pair
        outcome_of_def)

theorem missing_previous_goal_fails_NotFound_witness:
  "execute ref_deps ref_Goal ''b'' (command_after ''goal_x'') (world_a, []) =
     (Inl (GoalNotFound ''goal_x''),
      world_a\<lparr>streams := (streams world_a)(''goal_b'' := [GoalAddedEvent ''goal_b'' ''ship'' None]),
              published := published world_a @ [GoalAddedEvent ''goal_b'' ''ship'' None]\<rparr>,
      [(EventWriterAppend (GoalAddedEvent ''goal_b'' ''ship'' None), Returned),
       (EventBusPublish (GoalAddedEvent ''goal_b'' ''ship'' None), Returned),
       (GoalReaderFindById ''goal_x'', Returned)])"
  using missing_previous_goal_fails_NotFound
    [where cmd = "command_after ''goal_x''" and X = "''goal_x''" and deps = ref_deps
       and ops = ref_Goal and uuid = "''b''" and w = world_a
       and uw = ref_append and ur = ref_readStream and gr = ref_findById
       and g = "\<lparr>goal_id = ''goal_b'', goal_objective = None, goal_nextGoalId = None\<rparr>"
       and ev = "GoalAddedEvent ''goal_b'' ''ship'' None"
       and ?w1.0 = "world_a\<lparr>streams := (streams world_a)
                       (''goal_b'' := [GoalAddedEvent ''goal_b'' ''ship'' None])\<rparr>"
       and ?w2.0 = "world_a\<lparr>streams := (streams world_a)
                       (''goal_b'' := [GoalAddedEvent ''goal_b'' ''ship'' None]),
              published := published world_a @ [GoalAddedEvent ''goal_b'' ''ship'' None]\<rparr>"
       and ?w3.0 = "world_a\<lparr>streams := (streams world_a)
                       (''goal_b'' := [GoalAddedEvent ''goal_b'' ''ship'' None]),
              published := published world_a @ [GoalAddedEvent ''goal_b'' ''ship'' None]\<rparr>"]
  by (simp add: handler_defs log_defs ref_defs)

text \<open>
  Claim C4, as stated, fails at the empty id: with \<^verbatim>\<open>previousGoalId = ""\<close> and no chaining
  collaborator wired, \<^verbatim>\<open>execute\<close> returns the new goal id.
\<close>

theorem unwired_chaining_skipped_for_empty_id_counterexample:
  "previousGoalId (command_after '''') = Some ''''
   \<and> goalReader ref_deps_unwired = None
   \<and> result_of (execute ref_deps_unwired ref_Goal ''b'' (command_after '''') (world_a, []))
       = Inr ''goal_b''"
  by (simp add: handler_defs log_defs ref_defs)

text \<open>
  Claim C4, amended. For a command whose \<^verbatim>\<open>previousGoalId\<close> is a non-empty string, if one
  of the three chaining collaborators is absent, \<^verbatim>\<open>execute\<close> never returns a goal id; its
  run has at most two calls, none of them a chaining call; and once the add event has
  been appended and published the failure is the configuration error, after exactly those
  two calls.
\<close>

theorem unwired_chaining_fails:
  assumes "previousGoalId cmd = Some X" and "X \<noteq> []"
    and "updateEventWriter deps = None \<or> updateEventReader deps = None \<or> goalReader deps = None"
  shows "(\<forall>gid. result_of (execute deps ops uuid cmd (w, [])) \<noteq> Inr gid)
     \<and> (\<forall>c r. (c, r) \<in> set (calls_of (execute deps ops uuid cmd (w, [])))
            \<longrightarrow> \<not> is_chaining_call c)
     \<and> length (calls_of (execute deps ops uuid cmd (w, []))) \<le> 2
     \<and> (\<forall>g ev w1 w2.
          Goal_create ops (goalId_of uuid) = Inr g
          \<and> Goal_add ops g (objective cmd) (successCriteria cmd) (scopeIn cmd) (scopeOut cmd)
               (boundaries cmd) (buildEmbeddedContext cmd) = Inr ev
          \<and> eventWriter deps ev w = (Inr (), w1) \<and> eventBus deps ev w1 = (Inr (), w2)
          \<longrightarrow> execute deps ops uuid cmd (w, []) =
                (Inl ChainingNotConfigured, w2,
                 [(EventWriterAppend ev, Returned), (EventBusPublish ev, Returned)]))"
proof -
  have nc: "\<And>s. updatePreviousGoalNextGoalId deps ops X (goalId_of uuid) s
                 = (Inl ChainingNotConfigured, s)"
    using assms(3) by (auto simp add: updatePreviousGoalNextGoalId_def split: option.splits)
  have t: "truthy_str (previousGoalId cmd)" using assms by (simp add: truthy_str_def)
  show ?thesis
    using t assms(1)
    by (auto simp add: execute_def nc await_pair outcome_of_def Let_def result_of_def calls_of_def
        split: sum.splits prod.splits)
qed

theorem unwired_chaining_fails_witness:
  "result_of (execute ref_deps_unwired ref_Goal ''b'' (command_after ''goal_a'') (world_a, []))
     = Inl ChainingNotConfigured
   \<and> length (calls_of (execute ref_deps_unwired ref_Goal ''b'' (command_after ''goal_a'')
                         (world_a, []))) \<le> 2"
  using unwired_chaining_fails
          [of "command_after ''goal_a''" "''goal_a''" ref_deps_unwired ref_Goal "''b''" world_a]
  by (simp add: handler_defs log_defs ref_defs)



section \<open>Properties of the configurers and of the settings merger\<close>


lemma mem_fs_simps:
  "ensureDir (mem_fs plan) d w = (if ensureDir_throws plan d then (Inl EACCES, w) else (Inr (), w))"
  "pathExists (mem_fs plan) p w = (Inr (w p \<noteq> None), w)"
  "readFile (mem_fs plan) p w =
     (if readFile_throws plan p then (Inl EACCES, w)
      else (case w p of None \<Rightarrow> (Inl ENOENT, w) | Some c \<Rightarrow> (Inr c, w)))"
  "writeFile (mem_fs plan) p c w =
     (case writeFile_throws plan p of
        Some left \<Rightarrow> (Inl ENOSPC, w(p := left))
      | None \<Rightarrow> (Inr (), w(p \<mapsto> c)))"
  "copy (mem_fs plan) a b w =
     (if copy_throws plan a b then (Inl EACCES, w)
      else (case w a of None \<Rightarrow> (Inl ENOENT, w) | Some c \<Rightarrow> (Inr (), w(b \<mapsto> c))))"
  "path_join (mem_fs plan) = ref_path_join"
  "str_trim (mem_fs plan) = ref_trim"
  "str_trimEnd (mem_fs plan) = ref_trimEnd"
  by (simp_all add: mem_fs_def)

lemmas merge_defs = deepMerge_def mergeSessionStartHooks_def mergeMatcher_def Map_values_def
  validateSettings_def twice_settings_def empty_settings_def sessionHook_def merged_once_def
  Let_def

lemmas fs_defs = mergeSettings_def mergeSettings_try_def parseAndValidate_def mem_fs_simps
  no_faults_def no_files_def settingsPath_of_def backupPath_of_def ref_path_join_def
  toy_codec_def table_codec_def render_def render_matcher_def ref_trim_def ref_trimEnd_def
  is_ws_def




text \<open>
  Claim C8 at a failing input. In a project with no settings file, merging settings that
  name the same hook twice under one matcher writes both hooks (the matcher is new and is
  pushed as it is); merging the same settings again finds the matcher, deduplicates its
  hooks by command and writes one hook: the second merge changes the file.
\<close>

theorem mergeSettings_second_merge_changes_file:
  "mergeSettings (mem_fs no_faults) toy_codec ''17'' ''/p'' twice_settings no_files =
     (Inr (), no_files(''/p/.gemini/settings.json'' \<mapsto>
        ''{hooks:{SessionStart:[{startup:<jumbo session start><jumbo session start>}]}}''
        @ [CHR 0x0A]))
   \<and> mergeSettings (mem_fs no_faults) toy_codec ''18'' ''/p'' twice_settings
       (no_files(''/p/.gemini/settings.json'' \<mapsto>
          ''{hooks:{SessionStart:[{startup:<jumbo session start><jumbo session start>}]}}''
          @ [CHR 0x0A])) =
     (Inr (), no_files(''/p/.gemini/settings.json'' \<mapsto>
        ''{hooks:{SessionStart:[{startup:<jumbo session start>}]}}'' @ [CHR 0x0A],
        ''/p/.gemini/settings.json.backup.18'' \<mapsto>
        ''{hooks:{SessionStart:[{startup:<jumbo session start><jumbo session start>}]}}''
        @ [CHR 0x0A]))
   \<and> deepMerge (deepMerge empty_settings twice_settings) twice_settings
       \<noteq> deepMerge empty_settings twice_settings"
  by (simp add: fs_defs merge_defs fun_upd_twist)






end
